theory Spec2Isabelle
  imports Main
begin

section \<open>JavaScript values\<close>

text \<open>
  The component \<^verbatim>\<open>ChatContainer\<close> (src/components/Chat/ChatContainer.js) reads its
  input with the idioms of JavaScript: \<^verbatim>\<open>a && b\<close>, \<^verbatim>\<open>a || b\<close>, \<^verbatim>\<open>a ? b : c\<close> and
  \<^verbatim>\<open>typeof a === "string"\<close>. These depend on the value itself and not only on whether a
  field is there, so the fields of the input are JavaScript values. Numbers are integers
  here; nothing in the component computes with them.
\<close>

datatype jsval =
    JUndefined
  | JNull
  | JBool bool
  | JNum int
  | JStr string
  | JObj "(string \<times> jsval) list"

type_synonym js_object = "(string \<times> jsval) list"

text \<open>What \<^verbatim>\<open>if (v)\<close> takes: undefined, null, false, 0 and the empty string are falsy.\<close>

fun truthy :: "jsval \<Rightarrow> bool" where
  "truthy JUndefined = False"
| "truthy JNull = False"
| "truthy (JBool b) = b"
| "truthy (JNum n) = (n \<noteq> 0)"
| "truthy (JStr s) = (s \<noteq> [])"
| "truthy (JObj kvs) = True"

text \<open>\<^verbatim>\<open>a && b\<close> and \<^verbatim>\<open>a || b\<close> return one of their operands, not a boolean.\<close>

definition js_and :: "jsval \<Rightarrow> jsval \<Rightarrow> jsval" where
  "js_and a b = (if truthy a then b else a)"

definition js_or :: "jsval \<Rightarrow> jsval \<Rightarrow> jsval" where
  "js_or a b = (if truthy a then a else b)"

text \<open>
  \<^verbatim>\<open>obj.key\<close> on an object: the value stored under the key, undefined when there is none.
  \<^verbatim>\<open>v[key]\<close> on a value that is not an object finds no data property. (Members inherited
  from the prototypes, such as \<^verbatim>\<open>toString\<close> or the \<^verbatim>\<open>length\<close> of a string, are not
  modelled: no feature is named after one.)
\<close>

definition js_get :: "js_object \<Rightarrow> string \<Rightarrow> jsval" where
  "js_get obj key = (case map_of obj key of Some v \<Rightarrow> v | None \<Rightarrow> JUndefined)"

fun js_index :: "jsval \<Rightarrow> string \<Rightarrow> jsval" where
  "js_index (JObj obj) key = js_get obj key"
| "js_index v key = JUndefined"

text \<open>
  \<^verbatim>\<open>s.split(",")\<close>: the pieces of \<open>s\<close> between its commas. The empty string gives one
  empty piece, and a trailing comma gives a last empty piece.
\<close>

fun split_comma :: "string \<Rightarrow> string list" where
  "split_comma [] = [[]]"
| "split_comma (c # cs) =
     (if c = CHR '','' then [] # split_comma cs
      else (case split_comma cs of
              [] \<Rightarrow> [[c]]
            | w # ws \<Rightarrow> (c # w) # ws))"

text \<open>
  The inverse, \<^verbatim>\<open>ws.join(",")\<close>. It is used only to say what the entries of a
  comma-separated list are: \<open>ws\<close> are the entries of \<open>s\<close> when no entry has a comma and
  joining them gives \<open>s\<close> back.
\<close>

fun join_comma :: "string list \<Rightarrow> string" where
  "join_comma [] = []"
| "join_comma [w] = w"
| "join_comma (w # v # ws) = w @ CHR '','' # join_comma (v # ws)"

definition comma_free :: "string \<Rightarrow> bool" where
  "comma_free w = (CHR '','' \<notin> set w)"

definition entries_of :: "string \<Rightarrow> string list \<Rightarrow> bool" where
  "entries_of s ws = (ws \<noteq> [] \<and> list_all comma_free ws \<and> join_comma ws = s)"

section \<open>The collaborators of the component\<close>

text \<open>
  Two literals come from modules that are not part of the component's file:
  \<^verbatim>\<open>CHAT_FEATURE_TYPES.ATTACHMENTS\<close> (constants.js) and
  \<^verbatim>\<open>ContentType.MESSAGE_CONTENT_TYPE.TEXT_MARKDOWN\<close> (datamodel/Model.js). They are
  parameters of the model.
\<close>

record constants =
  ATTACHMENTS :: string
  TEXT_MARKDOWN :: string

text \<open>
  Modelled from the spec: the class \<^verbatim>\<open>ChatSession\<close> (ChatSession.js) is missing. Its
  constructor never fails and keeps its five arguments; \<open>ref\<close> is the identity of the
  object (\<^verbatim>\<open>new\<close> gives a fresh one each time).
\<close>

record chat_session =
  ref :: nat
  chatDetails :: js_object
  name :: jsval
  region :: jsval
  stage :: jsval
  customizationParams :: js_object

text \<open>
  A promise settles once: it resolves with a value or rejects with the thrown value. A
  callback is known by what a call of it does: return (\<open>None\<close>) or throw (\<open>Some e\<close>).
\<close>

datatype 'a settled = Resolved 'a | Rejected jsval

type_synonym 'a callback = "'a \<Rightarrow> jsval option"

text \<open>The calls the component makes on its collaborators, in the order it makes them.\<close>

datatype effect =
    LoggerInfo string "jsval list"
  | InitiateChat js_object
  | NewChatSession chat_session
  | OnChatClose nat
  | OpenChatSession nat
  | SuccessCalled chat_session
  | FailureCalled jsval

text \<open>
  What lies outside the component instance:
  \<^item> \<open>currentChatSession\<close>: modelled from the spec (SessionRegistry, the slot behind
    \<^verbatim>\<open>setCurrentChatSessionInstance\<close> of ChatSession.js): one slot, the last write wins;
  \<^item> \<open>EventBus\<close>: modelled from the spec (eventbus.js): the subscriptions in the order
    they were made, each a topic and the identity of the handler function;
  \<^item> \<open>LogManager\<close>: whether \<^verbatim>\<open>window.connect && window.connect.LogManager\<close> holds;
  \<^item> \<open>allocated\<close>: how many objects (sessions, bound functions) have been created;
    the next one gets this number as its identity;
  \<^item> \<open>trace\<close>: the calls made so far.
\<close>

record globals =
  currentChatSession :: "chat_session option"
  EventBus :: "(string \<times> nat) list"
  LogManager :: bool
  allocated :: nat
  trace :: "effect list"

text \<open>
  Modelled from the spec: \<^verbatim>\<open>EventBus.on(topic, handler)\<close> of eventbus.js is missing. It
  adds a subscription after the existing ones (subscribers are served in the order in
  which they subscribed).
\<close>

definition EventBus_on :: "string \<Rightarrow> nat \<Rightarrow> globals \<Rightarrow> globals" where
  "EventBus_on topic handler g = g\<lparr>EventBus := EventBus g @ [(topic, handler)]\<rparr>"

text \<open>
  Modelled from the spec: \<^verbatim>\<open>EventBus.off(handler)\<close> of eventbus.js is missing. It removes
  the subscriptions of that very handler reference, and does nothing when the handler is
  not subscribed.
\<close>

definition EventBus_off :: "nat \<Rightarrow> globals \<Rightarrow> globals" where
  "EventBus_off handler g = g\<lparr>EventBus := filter (\<lambda>sub. snd sub \<noteq> handler) (EventBus g)\<rparr>"

text \<open>
  Modelled from the spec: \<^verbatim>\<open>setCurrentChatSessionInstance\<close> of ChatSession.js is missing.
\<close>

definition setCurrentChatSessionInstance :: "chat_session \<Rightarrow> globals \<Rightarrow> globals" where
  "setCurrentChatSessionInstance s g = g\<lparr>currentChatSession := Some s\<rparr>"

text \<open>
  \<^verbatim>\<open>f.bind(this)\<close> creates a new function object on every call: two results of
  \<^verbatim>\<open>bind\<close> are never the same reference, even for the same \<open>f\<close> and \<open>this\<close>.
\<close>

definition bind_this :: "globals \<Rightarrow> nat \<times> globals" where
  "bind_this g = (allocated g, g\<lparr>allocated := Suc (allocated g)\<rparr>)"

text \<open>
  Modelled from the spec: \<^verbatim>\<open>new ChatSession(chatDetails, name, region, stage,
  customizationParams)\<close> of ChatSession.js is missing. It never fails; the object is a
  new one and keeps the arguments.
\<close>

definition new_ChatSession ::
  "js_object \<Rightarrow> jsval \<Rightarrow> jsval \<Rightarrow> jsval \<Rightarrow> js_object \<Rightarrow> globals \<Rightarrow> chat_session" where
  "new_ChatSession details nm rg sg params g =
     \<lparr>ref = allocated g, chatDetails = details, name = nm, region = rg, stage = sg,
      customizationParams = params\<rparr>"

section \<open>The component\<close>

datatype lifecycle = NotInitiated | Initiating | Initiated | InitiateFailed

text \<open>
  The state of the instance. \<^verbatim>\<open>setState\<close> is a request: React merges the fields it is
  given into the state of a mounted instance, at the call when the call is made outside
  a batch of updates, and at the end of the batch when it is made inside one (inside
  React's own event handlers and lifecycle methods, and everywhere under automatic
  batching). \<open>state\<close>, below, is the state with every request made so far merged in:
  what \<^verbatim>\<open>this.state\<close> holds from the moment React has applied them. What
  \<^verbatim>\<open>this.state\<close> reads before that moment is \<open>this_state\<close>, further down.
\<close>

record component_state =
  chatSession :: "chat_session option"
  composerConfig :: js_object
  status :: lifecycle
  language :: jsval

text \<open>
  The instance, mounted: its state, the function stored in
  \<^verbatim>\<open>this.submitChatInitiationHandler\<close> and whether \<^verbatim>\<open>this.logger\<close> was set.
\<close>

record ChatContainer =
  state :: component_state
  submitChatInitiationHandler :: nat
  logger :: bool

text \<open>The request \<^verbatim>\<open>this.setState(fields)\<close>, merged into \<open>state\<close>.\<close>

definition setState :: "(component_state \<Rightarrow> component_state) \<Rightarrow> ChatContainer \<Rightarrow> ChatContainer" where
  "setState upd c = c\<lparr>state := upd (state c)\<rparr>"


definition logger_info :: "ChatContainer \<Rightarrow> string \<Rightarrow> jsval list \<Rightarrow> globals \<Rightarrow> globals" where
  "logger_info c msg args g =
     (if logger c then g\<lparr>trace := trace g @ [LoggerInfo msg args]\<rparr> else g)"

text \<open>
  The constructor (lines 44-60). It calls \<^verbatim>\<open>this.initiateChatSession.bind(this)\<close> twice:
  the first result is stored, the second is subscribed to \<^verbatim>\<open>initChat\<close>.
\<close>

definition constructor :: "globals \<Rightarrow> ChatContainer \<times> globals" where
  "constructor g =
     (let (stored, g1) = bind_this g;
          (subscribed, g2) = bind_this g1;
          g3 = EventBus_on ''initChat'' subscribed g2
      in (\<lparr>state = \<lparr>chatSession = None, composerConfig = [], status = NotInitiated,
                      language = JStr ''en_US''\<rparr>,
           submitChatInitiationHandler = stored,
           logger = LogManager g3\<rparr>, g3))"

text \<open>\<^verbatim>\<open>componentWillUnmount\<close> (lines 62-64).\<close>

definition componentWillUnmount :: "ChatContainer \<Rightarrow> globals \<Rightarrow> globals" where
  "componentWillUnmount c g = EventBus_off (submitChatInitiationHandler c) g"

text \<open>\<^verbatim>\<open>resetState\<close> (lines 138-141).\<close>

definition resetState :: "ChatContainer \<times> globals \<Rightarrow> ChatContainer \<times> globals" where
  "resetState cg =
     (case cg of (c, g) \<Rightarrow>
        (setState (\<lambda>st. st\<lparr>status := NotInitiated, chatSession := None\<rparr>) c,
         logger_info c ''Chat session is reset'' [] g))"

subsection \<open>Initiation\<close>

text \<open>
  \<^verbatim>\<open>submitChatInitiation\<close> is an \<^verbatim>\<open>async\<close> function: it runs up to its first
  \<^verbatim>\<open>await\<close>, returns, and goes on when the awaited promise settles. \<open>frame\<close> holds its
  parameters and the local \<^verbatim>\<open>customizationParams\<close>; \<open>suspended\<close> says at which
  \<^verbatim>\<open>await\<close> it stands and what it knows there.
\<close>

record frame =
  input :: js_object
  success :: "chat_session callback option"
  failure :: "jsval callback option"
  customization :: js_object

datatype suspended =
    Await_initiateChat frame
  | Await_openChatSession frame js_object chat_session

text \<open>
  \<^verbatim>\<open>openChatSession\<close> (lines 128-136), up to the promise it returns: the session is
  created, the close handler is registered on it, and its \<^verbatim>\<open>openChatSession()\<close> is
  called. The promise resolves with the session when that call's promise resolves.
\<close>

definition openChatSession ::
  "js_object \<Rightarrow> jsval \<Rightarrow> jsval \<Rightarrow> jsval \<Rightarrow> js_object \<Rightarrow> globals \<Rightarrow> chat_session \<times> globals" where
  "openChatSession details nm rg sg params g =
     (let session = new_ChatSession details nm rg sg params g
      in (session,
          g\<lparr>allocated := Suc (allocated g),
            trace := trace g @ [NewChatSession session, OnChatClose (ref session),
                                OpenChatSession (ref session)]\<rparr>))"

text \<open>Lines 98-101: the local \<^verbatim>\<open>customizationParams\<close>.\<close>

definition customizationParams_of :: "js_object \<Rightarrow> js_object" where
  "customizationParams_of inp =
     [(''authenticationRedirectUri'',
         js_or (js_get inp ''authenticationRedirectUri'') (JStr '''')),
      (''authenticationIdentityProvider'',
         js_or (js_get inp ''authenticationIdentityProvider'') (JStr ''''))]"

text \<open>Line 104, up to the \<^verbatim>\<open>await\<close>.\<close>

definition open_step ::
  "frame \<Rightarrow> js_object \<Rightarrow> ChatContainer \<times> globals \<Rightarrow> (ChatContainer \<times> globals) \<times> chat_session" where
  "open_step fr details cg =
     (case cg of (c, g) \<Rightarrow>
        (let (session, g1) =
               openChatSession details (js_get (input fr) ''name'') (js_get (input fr) ''region'')
                 (js_get (input fr) ''stage'') (customization fr) g
         in ((c, g1), session)))"

text \<open>
  Lines 96-104, up to the first \<^verbatim>\<open>await\<close> that is reached: the state is set to
  \<^verbatim>\<open>Initiating\<close> first; then either the pre-built parameters are wrapped as
  \<^verbatim>\<open>{startChatResult: input.chatSessionParameters}\<close> and line 104 runs at once, or
  \<^verbatim>\<open>initiateChat(input)\<close> is called and awaited.
\<close>

definition submitChatInitiation ::
  "js_object \<Rightarrow> chat_session callback option \<Rightarrow> jsval callback option \<Rightarrow>
   ChatContainer \<times> globals \<Rightarrow> (ChatContainer \<times> globals) \<times> suspended" where
  "submitChatInitiation inp succ fail cg =
     (case cg of (c, g) \<Rightarrow>
        (let c1 = setState (\<lambda>st. st\<lparr>status := Initiating\<rparr>) c;
             fr = \<lparr>input = inp, success = succ, failure = fail,
                   customization = customizationParams_of inp\<rparr>
         in if truthy (js_get inp ''chatSessionParameters'')
            then (let details = [(''startChatResult'', js_get inp ''chatSessionParameters'')]
                  in (case open_step fr details (c1, g) of
                        (cg1, session) \<Rightarrow> (cg1, Await_openChatSession fr details session)))
            else ((c1, g\<lparr>trace := trace g @ [InitiateChat inp]\<rparr>), Await_initiateChat fr)))"




text \<open>
  The \<^verbatim>\<open>catch\<close> block (lines 122-125). An exception thrown by \<^verbatim>\<open>failure\<close> itself
  leaves the function through the promise that \<^verbatim>\<open>initiateChatSession\<close> dropped; it
  changes nothing here.
\<close>

definition catch_block :: "frame \<Rightarrow> jsval \<Rightarrow> ChatContainer \<times> globals \<Rightarrow> ChatContainer \<times> globals" where
  "catch_block fr error cg =
     (case cg of (c, g) \<Rightarrow>
        (setState (\<lambda>st. st\<lparr>status := InitiateFailed\<rparr>) c,
         (case failure fr of
            None \<Rightarrow> g
          | Some f \<Rightarrow> g\<lparr>trace := trace g @ [FailureCalled error]\<rparr>)))"

text \<open>Lines 106-109: the two flags of the composer.\<close>

definition attachmentsEnabled :: "constants \<Rightarrow> js_object \<Rightarrow> js_object \<Rightarrow> jsval" where
  "attachmentsEnabled k inp details =
     js_or
       (js_and (js_get inp ''featurePermissions'')
          (js_index (js_get inp ''featurePermissions'') (ATTACHMENTS k)))
       (js_and (js_get details ''featurePermissions'')
          (js_index (js_get details ''featurePermissions'') (ATTACHMENTS k)))"

definition richMessagingEnabled :: "constants \<Rightarrow> js_object \<Rightarrow> bool" where
  "richMessagingEnabled k inp =
     (case js_get inp ''supportedMessagingContentTypes'' of
        JStr s \<Rightarrow> TEXT_MARKDOWN k \<in> set (split_comma s)
      | _ \<Rightarrow> False)"

definition composerConfig_of :: "constants \<Rightarrow> js_object \<Rightarrow> js_object \<Rightarrow> js_object" where
  "composerConfig_of k inp details =
     [(''attachmentsEnabled'', attachmentsEnabled k inp details),
      (''richMessagingEnabled'', JBool (richMessagingEnabled k inp))]"

text \<open>
  Lines 105-121, after the session has opened. The call of \<^verbatim>\<open>success\<close> stands inside the
  \<^verbatim>\<open>try\<close>: when it throws, the \<^verbatim>\<open>catch\<close> block runs after the state and the registry
  have been written.
\<close>

definition opened_block ::
  "constants \<Rightarrow> frame \<Rightarrow> js_object \<Rightarrow> chat_session \<Rightarrow> ChatContainer \<times> globals \<Rightarrow>
   ChatContainer \<times> globals" where
  "opened_block k fr details session cg =
     (case cg of (c, g) \<Rightarrow>
        (let g1 = setCurrentChatSessionInstance session g;
             lang = js_or (js_get (input fr) ''language'') (JStr ''en_US'');
             c1 = setState (\<lambda>st. st\<lparr>status := Initiated, chatSession := Some session,
                                      composerConfig := composerConfig_of k (input fr) details,
                                      language := lang\<rparr>) c
         in (case success fr of
               None \<Rightarrow> (c1, g1)
             | Some f \<Rightarrow>
                 (let g2 = g1\<lparr>trace := trace g1 @ [SuccessCalled session]\<rparr>
                  in (case f session of
                        None \<Rightarrow> (c1, g2)
                      | Some error \<Rightarrow> catch_block fr error (c1, g2))))))"

text \<open>
  When the promise of the session's \<^verbatim>\<open>openChatSession()\<close> settles: a rejection goes to
  the \<^verbatim>\<open>catch\<close> block, otherwise lines 105-121 run.
\<close>

definition resume_openChatSession ::
  "constants \<Rightarrow> frame \<Rightarrow> js_object \<Rightarrow> chat_session \<Rightarrow> unit settled \<Rightarrow>
   ChatContainer \<times> globals \<Rightarrow> ChatContainer \<times> globals" where
  "resume_openChatSession k fr details session opened cg =
     (case opened of
        Rejected error \<Rightarrow> catch_block fr error cg
      | Resolved u \<Rightarrow> opened_block k fr details session cg)"

text \<open>
  When the promise of \<^verbatim>\<open>initiateChat\<close> settles: a rejection goes to the \<^verbatim>\<open>catch\<close>
  block and ends the attempt; a descriptor goes to line 104, and the attempt goes on when
  the session's promise settles.
\<close>

definition resume_initiateChat ::
  "constants \<Rightarrow> frame \<Rightarrow> js_object settled \<Rightarrow> unit settled \<Rightarrow>
   ChatContainer \<times> globals \<Rightarrow> ChatContainer \<times> globals" where
  "resume_initiateChat k fr created opened cg =
     (case created of
        Rejected error \<Rightarrow> catch_block fr error cg
      | Resolved details \<Rightarrow>
          (case open_step fr details cg of
             (cg1, session) \<Rightarrow> resume_openChatSession k fr details session opened cg1))"

text \<open>
  One attempt to its end, given how the promise of \<^verbatim>\<open>initiateChat\<close> settles (\<open>created\<close>,
  not looked at when the pre-built parameters are used) and how the promise of the
  session's \<^verbatim>\<open>openChatSession()\<close> settles (\<open>opened\<close>, not looked at when the first one
  rejects). A promise that never settles leaves the attempt suspended, in the state that
  \<open>submitChatInitiation\<close> returned; \<open>attempt\<close> is about the attempts that end, with
  nothing else of the program running on the component while the attempt is suspended.
\<close>

definition attempt ::
  "constants \<Rightarrow> js_object \<Rightarrow> chat_session callback option \<Rightarrow> jsval callback option \<Rightarrow>
   js_object settled \<Rightarrow> unit settled \<Rightarrow> ChatContainer \<times> globals \<Rightarrow> ChatContainer \<times> globals" where
  "attempt k inp succ fail created opened cg =
     (case submitChatInitiation inp succ fail cg of
        (cg1, Await_initiateChat fr) \<Rightarrow> resume_initiateChat k fr created opened cg1
      | (cg1, Await_openChatSession fr details session) \<Rightarrow>
          resume_openChatSession k fr details session opened cg1)"

section \<open>Reading the trace and the heap\<close>

text \<open>The calls made between two moments, and three kinds of call among them.\<close>

definition calls_since :: "globals \<Rightarrow> globals \<Rightarrow> effect list" where
  "calls_since g g' = drop (length (trace g)) (trace g')"

fun is_callback :: "effect \<Rightarrow> bool" where
  "is_callback (SuccessCalled s) = True"
| "is_callback (FailureCalled e) = True"
| "is_callback e = False"

fun is_InitiateChat :: "effect \<Rightarrow> bool" where
  "is_InitiateChat (InitiateChat i) = True"
| "is_InitiateChat e = False"

fun created_sessions :: "effect list \<Rightarrow> chat_session list" where
  "created_sessions [] = []"
| "created_sessions (NewChatSession s # es) = s # created_sessions es"
| "created_sessions (e # es) = created_sessions es"

text \<open>
  Objects exist only once they have been created: a session that the state or the
  registry refers to has an identity below \<open>allocated\<close>.
\<close>

definition older :: "globals \<Rightarrow> chat_session option \<Rightarrow> bool" where
  "older g slot = (case slot of None \<Rightarrow> True | Some s \<Rightarrow> ref s < allocated g)"

definition heap_ok :: "ChatContainer \<times> globals \<Rightarrow> bool" where
  "heap_ok cg =
     (case cg of (c, g) \<Rightarrow> older g (chatSession (state c)) \<and> older g (currentChatSession g))"

section \<open>How an attempt ends\<close>

text \<open>
  The two steps of an attempt, as the spec names them. Descriptor acquisition (line 103)
  yields the wrapped pre-built parameters when the input has them, and otherwise what the
  promise of \<^verbatim>\<open>initiateChat\<close> settles to. The attempt fails with the error of the first
  step that fails, and succeeds with the descriptor when both steps succeed.
\<close>

definition acquired :: "js_object \<Rightarrow> js_object settled \<Rightarrow> js_object settled" where
  "acquired inp created =
     (if truthy (js_get inp ''chatSessionParameters'')
      then Resolved [(''startChatResult'', js_get inp ''chatSessionParameters'')]
      else created)"

definition outcome :: "js_object \<Rightarrow> js_object settled \<Rightarrow> unit settled \<Rightarrow> jsval + js_object" where
  "outcome inp created opened =
     (case acquired inp created of
        Rejected error \<Rightarrow> Inl error
      | Resolved details \<Rightarrow>
          (case opened of Rejected error \<Rightarrow> Inl error | Resolved u \<Rightarrow> Inr details))"

text \<open>The session that line 104 creates for a descriptor.\<close>

definition session_opened :: "js_object \<Rightarrow> js_object \<Rightarrow> globals \<Rightarrow> chat_session" where
  "session_opened inp details g =
     new_ChatSession details (js_get inp ''name'') (js_get inp ''region'') (js_get inp ''stage'')
       (customizationParams_of inp) g"

text \<open>
  What it means for a feature-permission mapping to mark the attachments capability: the
  mapping is there and stores a truthy value under the capability's name. A mapping from
  capability names to booleans is either absent or an object that stores a boolean, or
  nothing, under that name.
\<close>

definition marks :: "constants \<Rightarrow> jsval \<Rightarrow> bool" where
  "marks k permissions = (truthy permissions \<and> truthy (js_index permissions (ATTACHMENTS k)))"

fun boolean_valued :: "constants \<Rightarrow> jsval \<Rightarrow> bool" where
  "boolean_valued k JUndefined = True"
| "boolean_valued k (JObj obj) =
     (case js_get obj (ATTACHMENTS k) of JUndefined \<Rightarrow> True | JBool b \<Rightarrow> True | _ \<Rightarrow> False)"
| "boolean_valued k v = False"

section \<open>Concrete inputs\<close>

definition initial_globals :: globals where
  "initial_globals =
     \<lparr>currentChatSession = None, EventBus = [], LogManager = True, allocated = 0, trace = []\<rparr>"

definition example_constants :: constants where
  "example_constants = \<lparr>ATTACHMENTS = ''attachments'', TEXT_MARKDOWN = ''text/markdown''\<rparr>"

text \<open>Scenario A of the spec: an input with a contact flow and an instance only.\<close>

definition input_A :: js_object where
  "input_A = [(''contactFlowId'', JStr ''cf1''), (''instanceId'', JStr ''i1'')]"

text \<open>Scenario B: pre-built session parameters, which here carry a feature permission.\<close>

definition params_B :: jsval where
  "params_B =
     JObj [(''ContactId'', JStr ''c1''),
           (''featurePermissions'', JObj [(''attachments'', JBool True)])]"

definition input_B :: js_object where
  "input_B = [(''chatSessionParameters'', params_B)]"

definition descriptor_A :: js_object where
  "descriptor_A = [(''startChatResult'', JObj [(''ContactId'', JStr ''c1'')])]"

definition returns :: "'a callback" where
  "returns x = None"

definition throws :: "jsval \<Rightarrow> 'a callback" where
  "throws e x = Some e"

text \<open>The component after mounting, and after scenario A has succeeded on it.\<close>

definition mounted :: "ChatContainer \<times> globals" where
  "mounted = constructor initial_globals"

definition after_A :: "ChatContainer \<times> globals" where
  "after_A =
     attempt example_constants input_A (Some returns) (Some returns) (Resolved descriptor_A)
       (Resolved ()) mounted"

definition input_fr :: js_object where
  "input_fr = [(''language'', JStr ''fr_FR''), (''supportedMessagingContentTypes'',
     JStr ''text/plain,text/markdown'')]"

text \<open>After scenario A has succeeded: pre-built parameters, and the session fails to open.\<close>

definition failed_B :: "ChatContainer \<times> globals" where
  "failed_B =
     attempt example_constants input_B (Some returns) (Some returns) (Resolved [])
       (Rejected (JStr ''timeout'')) after_A"

definition session_B :: chat_session where
  "session_B = session_opened input_B [(''startChatResult'', params_B)] (snd after_A)"

text \<open>On the mounted component: an input with a language, and scenario B.\<close>

definition after_fr :: "ChatContainer \<times> globals" where
  "after_fr =
     attempt example_constants input_fr None None (Resolved descriptor_A) (Resolved ()) mounted"

definition after_B :: "ChatContainer \<times> globals" where
  "after_B =
     attempt example_constants input_B (Some returns) None (Rejected (JStr ''unused''))
       (Resolved ()) mounted"

text \<open>
  After scenario A has succeeded: scenario A again, with a \<^verbatim>\<open>success\<close> that throws.
\<close>

definition thrown_after_A :: "ChatContainer \<times> globals" where
  "thrown_after_A =
     attempt example_constants input_A (Some (throws (JStr ''boom''))) (Some returns)
       (Resolved descriptor_A) (Resolved ()) after_A"

text \<open>On the mounted component: an input whose language is the empty string.\<close>

definition input_empty :: js_object where
  "input_empty = [(''language'', JStr '''')]"

definition after_empty :: "ChatContainer \<times> globals" where
  "after_empty =
     attempt example_constants input_empty None None (Resolved descriptor_A) (Resolved ())
       mounted"

text \<open>
  Two attempts that overlap on the mounted component: scenario A is started twice, and
  then the promise of the first \<^verbatim>\<open>initiateChat\<close> rejects while the second attempt is
  still suspended.
\<close>

definition frame_A :: frame where
  "frame_A =
     \<lparr>input = input_A, success = None, failure = None,
      customization = customizationParams_of input_A\<rparr>"




section \<open>What an attempt returns\<close>

lemmas run_defs = attempt_def submitChatInitiation_def open_step_def openChatSession_def
  resume_initiateChat_def resume_openChatSession_def opened_block_def catch_block_def
  setState_def setCurrentChatSessionInstance_def session_opened_def

lemmas example_defs = mounted_def constructor_def bind_this_def EventBus_on_def initial_globals_def
  example_constants_def input_A_def input_B_def params_B_def descriptor_A_def input_fr_def
  returns_def throws_def js_get_def js_or_def js_and_def customizationParams_of_def
  composerConfig_of_def attachmentsEnabled_def richMessagingEnabled_def

lemma calls_since_append [simp]:
  "trace g' = trace g @ xs \<Longrightarrow> calls_since g g' = xs"
  by (simp add: calls_since_def)

lemma attempt_acquisition_rejected:
  assumes "acquired inp created = Rejected e"
  shows "attempt k inp succ fail created opened (c, g) =
     (c\<lparr>state := (state c)\<lparr>status := InitiateFailed\<rparr>\<rparr>,
      g\<lparr>trace := trace g @ InitiateChat inp #
                 (case fail of None \<Rightarrow> [] | Some f \<Rightarrow> [FailureCalled e])\<rparr>)"
  using assms by (simp add: run_defs acquired_def Let_def split: option.splits if_splits)

lemma attempt_opening_rejected:
  assumes "acquired inp created = Resolved d"
  shows "attempt k inp succ fail created (Rejected e) (c, g) =
     (c\<lparr>state := (state c)\<lparr>status := InitiateFailed\<rparr>\<rparr>,
      g\<lparr>allocated := Suc (allocated g),
        trace := trace g @
          (if truthy (js_get inp ''chatSessionParameters'') then [] else [InitiateChat inp]) @
          [NewChatSession (session_opened inp d g), OnChatClose (allocated g),
           OpenChatSession (allocated g)] @
          (case fail of None \<Rightarrow> [] | Some f \<Rightarrow> [FailureCalled e])\<rparr>)"
  using assms
  by (simp add: run_defs acquired_def new_ChatSession_def Let_def split: option.splits if_splits)

lemma attempt_opened:
  assumes "acquired inp created = Resolved d"
  shows "attempt k inp succ fail created (Resolved u) (c, g) =
     (let session = session_opened inp d g;
          c1 = c\<lparr>state := (state c)\<lparr>status := Initiated, chatSession := Some session,
                  composerConfig := composerConfig_of k inp d,
                  language := js_or (js_get inp ''language'') (JStr ''en_US'')\<rparr>\<rparr>;
          g1 = g\<lparr>currentChatSession := Some session, allocated := Suc (allocated g),
                 trace := trace g @
                  (if truthy (js_get inp ''chatSessionParameters'') then []
                   else [InitiateChat inp]) @
                  [NewChatSession session, OnChatClose (allocated g),
                   OpenChatSession (allocated g)] @
                  (case succ of None \<Rightarrow> [] | Some f \<Rightarrow> [SuccessCalled session])\<rparr>
      in case succ of
           None \<Rightarrow> (c1, g1)
         | Some f \<Rightarrow>
            (case f session of
               None \<Rightarrow> (c1, g1)
             | Some e \<Rightarrow>
                 (c1\<lparr>state := (state c1)\<lparr>status := InitiateFailed\<rparr>\<rparr>,
                  g1\<lparr>trace := trace g1 @
                     (case fail of None \<Rightarrow> [] | Some h \<Rightarrow> [FailureCalled e])\<rparr>)))"
  using assms
  by (simp add: run_defs acquired_def new_ChatSession_def Let_def split: option.splits if_splits)

lemma outcome_failed:
  "outcome inp created opened = Inl e \<longleftrightarrow>
     acquired inp created = Rejected e \<or>
     (\<exists>d. acquired inp created = Resolved d) \<and> opened = Rejected e"
  by (auto simp: outcome_def split: settled.splits)

lemma outcome_succeeded:
  "outcome inp created opened = Inr d \<longleftrightarrow>
     acquired inp created = Resolved d \<and> opened = Resolved ()"
  by (auto simp: outcome_def split: settled.splits)

lemma callbacks_of_failure [simp]:
  "filter is_callback (case fail of None \<Rightarrow> [] | Some f \<Rightarrow> [FailureCalled e]) =
     (case fail of None \<Rightarrow> [] | Some f \<Rightarrow> [FailureCalled e])"
  by (simp split: option.splits)

lemma failed_state:
  assumes "outcome inp created opened = Inl e"
  shows "fst (attempt k inp succ fail created opened (c, g)) =
     c\<lparr>state := (state c)\<lparr>status := InitiateFailed\<rparr>\<rparr>"
  using assms unfolding outcome_failed
  by (auto simp: attempt_acquisition_rejected attempt_opening_rejected)

lemma catch_block_state:
  "fst (catch_block fr e (c, g)) = c\<lparr>state := (state c)\<lparr>status := InitiateFailed\<rparr>\<rparr>"
  by (simp add: catch_block_def setState_def)

lemma failed_globals:
  assumes "outcome inp created opened = Inl e"
  shows "\<exists>n es. snd (attempt k inp succ fail created opened (c, g)) =
     g\<lparr>allocated := n, trace := trace g @ es @
        (case fail of None \<Rightarrow> [] | Some f \<Rightarrow> [FailureCalled e])\<rparr> \<and>
     filter is_callback es = [] \<and> list_all (\<lambda>s. ref s = allocated g) (created_sessions es)"
proof -
  from assms consider
    (acq) "acquired inp created = Rejected e"
    | (opn) d where "acquired inp created = Resolved d" "opened = Rejected e"
    unfolding outcome_failed by blast
  then show ?thesis
  proof cases
    case acq
    show ?thesis
      unfolding attempt_acquisition_rejected [OF acq]
      by (rule exI [of _ "allocated g"], rule exI [of _ "[InitiateChat inp]"]) simp
  next
    case opn
    show ?thesis
      unfolding opn(2) attempt_opening_rejected [OF opn(1)]
      by (rule exI [of _ "Suc (allocated g)"],
          rule exI [of _ "(if truthy (js_get inp ''chatSessionParameters'') then []
             else [InitiateChat inp]) @
          [NewChatSession (session_opened inp d g), OnChatClose (allocated g),
           OpenChatSession (allocated g)]"])
         (simp add: session_opened_def new_ChatSession_def)
  qed
qed

lemma after_A_eq:
  "after_A =
    (\<lparr>state = \<lparr>chatSession = Some (session_opened input_A descriptor_A (snd mounted)),
               composerConfig = [(''attachmentsEnabled'', JUndefined),
                                 (''richMessagingEnabled'', JBool False)],
               status = Initiated, language = JStr ''en_US''\<rparr>,
      submitChatInitiationHandler = 0, logger = True\<rparr>,
     \<lparr>currentChatSession = Some (session_opened input_A descriptor_A (snd mounted)),
      EventBus = [(''initChat'', 1)], LogManager = True, allocated = 3,
      trace = [InitiateChat input_A,
               NewChatSession (session_opened input_A descriptor_A (snd mounted)),
               OnChatClose 2, OpenChatSession 2,
               SuccessCalled (session_opened input_A descriptor_A (snd mounted))]\<rparr>)"
  unfolding after_A_def
  by (simp add: run_defs example_defs new_ChatSession_def Let_def)

lemma heap_ok_after_A: "heap_ok after_A"
  by (simp add: after_A_eq heap_ok_def older_def session_opened_def new_ChatSession_def
      example_defs Let_def)

section \<open>Failed attempts\<close>

text \<open>
  C1. When descriptor acquisition or session opening fails with an error \<open>e\<close>, the attempt
  ends with the status \<^verbatim>\<open>InitiateFailed\<close>; the only callback called during the attempt is
  \<^verbatim>\<open>failure\<close>, when it was given, once and with \<open>e\<close> itself; the registry's current
  session is the one from before the attempt; the \<^verbatim>\<open>chatSession\<close> of the state is the one
  from before the attempt, and neither it nor the registry refers to a session that the
  attempt created.
\<close>

theorem failed_attempt_ends_InitiateFailed:
  fixes k inp succ fail created opened c g
  defines "c' \<equiv> fst (attempt k inp succ fail created opened (c, g))"
      and "g' \<equiv> snd (attempt k inp succ fail created opened (c, g))"
  assumes failed: "outcome inp created opened = Inl e"
  shows "status (state c') = InitiateFailed \<and>
         filter is_callback (calls_since g g') =
           (case fail of None \<Rightarrow> [] | Some f \<Rightarrow> [FailureCalled e]) \<and>
         currentChatSession g' = currentChatSession g \<and>
         chatSession (state c') = chatSession (state c) \<and>
         (heap_ok (c, g) \<longrightarrow>
            (\<forall>s \<in> set (created_sessions (calls_since g g')).
               chatSession (state c') \<noteq> Some s \<and> currentChatSession g' \<noteq> Some s))"
proof -
  have st: "c' = c\<lparr>state := (state c)\<lparr>status := InitiateFailed\<rparr>\<rparr>"
    unfolding c'_def by (rule failed_state [OF failed])
  obtain n es where g': "g' = g\<lparr>allocated := n, trace := trace g @ es @
        (case fail of None \<Rightarrow> [] | Some f \<Rightarrow> [FailureCalled e])\<rparr>"
    and es: "filter is_callback es = []"
    and fresh: "list_all (\<lambda>s. ref s = allocated g) (created_sessions es)"
    unfolding g'_def using failed_globals [OF failed] by blast
  have calls: "calls_since g g' =
      es @ (case fail of None \<Rightarrow> [] | Some f \<Rightarrow> [FailureCalled e])"
    by (simp add: g')
  have cs: "created_sessions (calls_since g g') = created_sessions es"
    unfolding calls by (induction es rule: created_sessions.induct) (simp_all split: option.splits)
  have none_kept: "chatSession (state c') \<noteq> Some s \<and> currentChatSession g' \<noteq> Some s"
    if "heap_ok (c, g)" and "s \<in> set (created_sessions (calls_since g g'))" for s
  proof -
    from fresh that(2) have "ref s = allocated g" by (simp add: cs list_all_iff)
    with that(1) show ?thesis
      by (auto simp: heap_ok_def older_def st g' split: option.splits)
  qed
  have "status (state c') = InitiateFailed" by (simp add: st)
  moreover have "filter is_callback (calls_since g g') =
      (case fail of None \<Rightarrow> [] | Some f \<Rightarrow> [FailureCalled e])"
    by (simp add: calls es)
  moreover have "currentChatSession g' = currentChatSession g" by (simp add: g')
  moreover have "chatSession (state c') = chatSession (state c)" by (simp add: st)
  ultimately show ?thesis using none_kept by blast
qed

theorem failed_attempt_witness:
  "outcome input_B (Resolved []) (Rejected (JStr ''timeout'')) = Inl (JStr ''timeout'') \<and>
   heap_ok after_A \<and>
   status (state (fst failed_B)) = InitiateFailed \<and>
   filter is_callback (calls_since (snd after_A) (snd failed_B)) =
     [FailureCalled (JStr ''timeout'')] \<and>
   currentChatSession (snd failed_B) = currentChatSession (snd after_A) \<and>
   chatSession (state (fst failed_B)) = chatSession (state (fst after_A)) \<and>
   created_sessions (calls_since (snd after_A) (snd failed_B)) = [session_B] \<and>
   chatSession (state (fst failed_B)) \<noteq> Some session_B \<and>
   currentChatSession (snd failed_B) \<noteq> Some session_B"
proof -
  have failed: "outcome input_B (Resolved []) (Rejected (JStr ''timeout'')) = Inl (JStr ''timeout'')"
    by (simp add: outcome_def acquired_def input_B_def params_B_def js_get_def)
  have made: "created_sessions (calls_since (snd after_A) (snd failed_B)) = [session_B]"
    unfolding failed_B_def session_B_def
    by (simp add: after_A_eq run_defs example_defs new_ChatSession_def Let_def calls_since_def)
  note inst = failed_attempt_ends_InitiateFailed [OF failed, of example_constants "Some returns"
      "Some returns" "fst after_A" "snd after_A", simplified prod.collapse, folded failed_B_def]
  from inst heap_ok_after_A
  have "\<forall>s \<in> set (created_sessions (calls_since (snd after_A) (snd failed_B))).
     chatSession (state (fst failed_B)) \<noteq> Some s \<and> currentChatSession (snd failed_B) \<noteq> Some s"
    by blast
  then have fresh: "chatSession (state (fst failed_B)) \<noteq> Some session_B \<and>
      currentChatSession (snd failed_B) \<noteq> Some session_B"
    unfolding made by simp
  from inst have "status (state (fst failed_B)) = InitiateFailed"
    and "filter is_callback (calls_since (snd after_A) (snd failed_B)) =
      [FailureCalled (JStr ''timeout'')]"
    and "currentChatSession (snd failed_B) = currentChatSession (snd after_A)"
    and "chatSession (state (fst failed_B)) = chatSession (state (fst after_A))"
    by simp_all
  with failed heap_ok_after_A made fresh show ?thesis by blast
qed

text \<open>
  The invariant holds after mounting, and an attempt and a reset keep it: the hypothesis
  on the heap above is met by every state the component reaches.
\<close>

lemma heap_ok_constructor:
  "older g (currentChatSession g) \<Longrightarrow> heap_ok (constructor g)"
  by (simp add: heap_ok_def older_def constructor_def bind_this_def EventBus_on_def Let_def
      split: option.splits)

lemma heap_ok_resetState: "heap_ok cg \<Longrightarrow> heap_ok (resetState cg)"
  by (cases cg)
    (simp add: heap_ok_def older_def resetState_def setState_def logger_info_def
      split: option.splits)

lemma heap_ok_attempt:
  assumes "heap_ok (c, g)"
  shows "heap_ok (attempt k inp succ fail created opened (c, g))"
proof (cases "acquired inp created")
  case (Rejected e)
  with assms show ?thesis
    by (simp add: attempt_acquisition_rejected heap_ok_def older_def split: option.splits)
next
  case acq: (Resolved d)
  show ?thesis
  proof (cases opened)
    case (Rejected e)
    with assms show ?thesis
      unfolding Rejected attempt_opening_rejected [OF acq]
      by (auto simp: heap_ok_def older_def split: option.splits)
  next
    case (Resolved u)
    with assms show ?thesis
      unfolding Resolved attempt_opened [OF acq]
      by (auto simp: heap_ok_def older_def Let_def session_opened_def new_ChatSession_def
          split: option.splits)
  qed
qed

text \<open>
  C10, as the code has it. The \<^verbatim>\<open>catch\<close> block writes the status and nothing else:
  whatever state it is entered in, it leaves \<^verbatim>\<open>chatSession\<close>, \<^verbatim>\<open>composerConfig\<close> and
  \<^verbatim>\<open>language\<close> as it found them. When descriptor acquisition or session opening fails,
  the state it is entered in still has the fields from before the attempt, so the state
  after the attempt is the one from before with the status \<^verbatim>\<open>InitiateFailed\<close>, and a
  state that held a session from an earlier successful attempt still holds it.
\<close>

theorem catch_block_changes_only_status:
  fixes k inp succ fail created opened c g
  defines "c' \<equiv> fst (attempt k inp succ fail created opened (c, g))"
  shows "fst (catch_block fr error (c, g)) = c\<lparr>state := (state c)\<lparr>status := InitiateFailed\<rparr>\<rparr> \<and>
         chatSession (state (fst (catch_block fr error (c, g)))) = chatSession (state c) \<and>
         composerConfig (state (fst (catch_block fr error (c, g)))) = composerConfig (state c) \<and>
         language (state (fst (catch_block fr error (c, g)))) = language (state c) \<and>
         (outcome inp created opened = Inl e \<longrightarrow>
            state c' = (state c)\<lparr>status := InitiateFailed\<rparr> \<and>
            chatSession (state c') = chatSession (state c) \<and>
            composerConfig (state c') = composerConfig (state c) \<and>
            language (state c') = language (state c) \<and>
            (\<forall>old. chatSession (state c) = Some old \<longrightarrow>
               chatSession (state c') = Some old \<and> status (state c') = InitiateFailed))"
  unfolding c'_def by (auto simp: catch_block_state failed_state)

theorem catch_block_changes_only_status_witness:
  "fst (catch_block frame_A (JStr ''boom'') after_A) =
     (fst after_A)\<lparr>state := (state (fst after_A))\<lparr>status := InitiateFailed\<rparr>\<rparr> \<and>
   outcome input_B (Resolved []) (Rejected (JStr ''timeout'')) = Inl (JStr ''timeout'') \<and>
   chatSession (state (fst after_A)) = Some (session_opened input_A descriptor_A (snd mounted)) \<and>
   state (fst failed_B) = (state (fst after_A))\<lparr>status := InitiateFailed\<rparr> \<and>
   chatSession (state (fst failed_B)) = Some (session_opened input_A descriptor_A (snd mounted)) \<and>
   composerConfig (state (fst failed_B)) = composerConfig (state (fst after_A)) \<and>
   language (state (fst failed_B)) = language (state (fst after_A)) \<and>
   status (state (fst failed_B)) = InitiateFailed"
proof -
  have failed: "outcome input_B (Resolved []) (Rejected (JStr ''timeout'')) = Inl (JStr ''timeout'')"
    by (simp add: outcome_def acquired_def input_B_def params_B_def js_get_def)
  have old: "chatSession (state (fst after_A)) =
      Some (session_opened input_A descriptor_A (snd mounted))"
    by (simp add: after_A_eq)
  note inst = catch_block_changes_only_status [where fr = frame_A and error = "JStr ''boom''"
      and c = "fst after_A" and g = "snd after_A" and inp = input_B and created = "Resolved []"
      and opened = "Rejected (JStr ''timeout'')" and e = "JStr ''timeout''"
      and k = example_constants and succ = "Some returns" and fail = "Some returns",
      simplified prod.collapse, folded failed_B_def]
  from inst failed old have "chatSession (state (fst failed_B)) =
      Some (session_opened input_A descriptor_A (snd mounted)) \<and>
      status (state (fst failed_B)) = InitiateFailed"
    by blast
  with inst failed old show ?thesis by blast
qed

text \<open>
  The claim as written has the old fields after every failed attempt. The \<^verbatim>\<open>catch\<close>
  block is also entered when \<^verbatim>\<open>success\<close> throws (line 121), after line 112 has written
  the new fields: scenario A with such a \<^verbatim>\<open>success\<close>, after scenario A has succeeded,
  ends with the status \<^verbatim>\<open>InitiateFailed\<close> and a call of \<^verbatim>\<open>failure\<close>, and the state holds
  the new session, not the old one.
\<close>

theorem thrown_success_keeps_new_session_counterexample:
  "outcome input_A (Resolved descriptor_A) (Resolved ()) = Inr descriptor_A \<and>
   status (state (fst thrown_after_A)) = InitiateFailed \<and>
   filter is_callback (calls_since (snd after_A) (snd thrown_after_A)) =
     [SuccessCalled (session_opened input_A descriptor_A (snd after_A)),
      FailureCalled (JStr ''boom'')] \<and>
   chatSession (state (fst after_A)) = Some (session_opened input_A descriptor_A (snd mounted)) \<and>
   chatSession (state (fst thrown_after_A)) = Some (session_opened input_A descriptor_A (snd after_A)) \<and>
   chatSession (state (fst thrown_after_A)) \<noteq> chatSession (state (fst after_A))"
  by (simp add: outcome_def acquired_def thrown_after_A_def after_A_eq run_defs example_defs
      new_ChatSession_def Let_def calls_since_def)

section \<open>Successful attempts\<close>

text \<open>
  C2, as the code has it. When descriptor acquisition and session opening both succeed
  and the \<^verbatim>\<open>success\<close> callback, when one is given, returns normally, the attempt ends
  with the status \<^verbatim>\<open>Initiated\<close>; the registry's current session and the \<^verbatim>\<open>chatSession\<close> of
  the state are the one session the attempt created; the only callback called is
  \<^verbatim>\<open>success\<close>, once and with that session; and the stored \<^verbatim>\<open>composerConfig\<close> is
  \<open>composerConfig_of\<close> of the input and the descriptor, whatever the earlier state, the
  callbacks and the registry were.
\<close>

theorem successful_attempt_ends_Initiated:
  fixes k inp succ fail created opened c g d
  defines "c' \<equiv> fst (attempt k inp succ fail created opened (c, g))"
      and "g' \<equiv> snd (attempt k inp succ fail created opened (c, g))"
      and "session \<equiv> session_opened inp d g"
  assumes succeeded: "outcome inp created opened = Inr d"
      and returns_normally: "\<forall>f. succ = Some f \<longrightarrow> f session = None"
  shows "status (state c') = Initiated \<and>
         currentChatSession g' = Some session \<and>
         chatSession (state c') = Some session \<and>
         created_sessions (calls_since g g') = [session] \<and>
         filter is_callback (calls_since g g') =
           (case succ of None \<Rightarrow> [] | Some f \<Rightarrow> [SuccessCalled session]) \<and>
         composerConfig (state c') = composerConfig_of k inp d"
proof -
  from succeeded have acq: "acquired inp created = Resolved d" and opn: "opened = Resolved ()"
    by (simp_all add: outcome_succeeded)
  show ?thesis
  proof (cases succ)
    case None
    then show ?thesis
      unfolding c'_def g'_def session_def opn attempt_opened [OF acq]
      by (simp add: Let_def)
  next
    case (Some f)
    with returns_normally have "f (session_opened inp d g) = None"
      by (simp add: session_def)
    with Some show ?thesis
      unfolding c'_def g'_def session_def opn attempt_opened [OF acq]
      by (simp add: Let_def)
  qed
qed

theorem successful_attempt_witness:
  "outcome input_A (Resolved descriptor_A) (Resolved ()) = Inr descriptor_A \<and>
   returns (session_opened input_A descriptor_A (snd mounted)) = None \<and>
   status (state (fst after_A)) = Initiated \<and>
   currentChatSession (snd after_A) = Some (session_opened input_A descriptor_A (snd mounted)) \<and>
   chatSession (state (fst after_A)) = Some (session_opened input_A descriptor_A (snd mounted)) \<and>
   created_sessions (calls_since (snd mounted) (snd after_A)) =
     [session_opened input_A descriptor_A (snd mounted)] \<and>
   filter is_callback (calls_since (snd mounted) (snd after_A)) =
     [SuccessCalled (session_opened input_A descriptor_A (snd mounted))] \<and>
   composerConfig (state (fst after_A)) = composerConfig_of example_constants input_A descriptor_A"
proof -
  have succeeded: "outcome input_A (Resolved descriptor_A) (Resolved ()) = Inr descriptor_A"
    by (simp add: outcome_def acquired_def input_A_def js_get_def)
  have normal: "\<forall>f. Some returns = Some f \<longrightarrow>
      f (session_opened input_A descriptor_A (snd mounted)) = None"
    by (simp add: returns_def)
  have r: "returns (session_opened input_A descriptor_A (snd mounted)) = None"
    by (simp add: returns_def)
  note inst = successful_attempt_ends_Initiated [OF succeeded normal, of example_constants
      "Some returns" "fst mounted", simplified prod.collapse, folded after_A_def]
  from inst succeeded r show ?thesis by simp
qed

text \<open>
  The claim as written has no condition on the callback. The call of \<^verbatim>\<open>success\<close> (line
  121) stands inside the \<^verbatim>\<open>try\<close> block: in scenario A with a \<^verbatim>\<open>success\<close> that throws,
  both steps succeed and the attempt does not end with the status \<^verbatim>\<open>Initiated\<close>.
\<close>

theorem throwing_success_counterexample:
  "outcome input_A (Resolved descriptor_A) (Resolved ()) = Inr descriptor_A \<and>
   status (state (fst (attempt example_constants input_A (Some (throws (JStr ''boom''))) None
     (Resolved descriptor_A) (Resolved ()) mounted))) \<noteq> Initiated"
  by (simp add: outcome_def acquired_def run_defs example_defs new_ChatSession_def Let_def)

text \<open>
  C9, as the code has it. After a successful attempt the \<^verbatim>\<open>language\<close> of the state is
  \<^verbatim>\<open>input.language || "en_US"\<close>: \<^verbatim>\<open>input.language\<close> when that is truthy (every non-empty
  string is), and \<^verbatim>\<open>"en_US"\<close> when it is falsy, which it is when the field is omitted.
\<close>

theorem language_of_successful_attempt:
  fixes k inp succ fail created opened c g d
  defines "c' \<equiv> fst (attempt k inp succ fail created opened (c, g))"
  assumes succeeded: "outcome inp created opened = Inr d"
  shows "(truthy (js_get inp ''language'') \<longrightarrow> language (state c') = js_get inp ''language'') \<and>
         (\<not> truthy (js_get inp ''language'') \<longrightarrow> language (state c') = JStr ''en_US'') \<and>
         (js_get inp ''language'' = JUndefined \<longrightarrow> language (state c') = JStr ''en_US'')"
proof -
  from succeeded have acq: "acquired inp created = Resolved d" and opn: "opened = Resolved ()"
    by (simp_all add: outcome_succeeded)
  have "language (state c') = js_or (js_get inp ''language'') (JStr ''en_US'')"
    unfolding c'_def opn attempt_opened [OF acq]
    by (simp add: Let_def split: option.splits)
  then show ?thesis by (auto simp: js_or_def)
qed

theorem language_witness:
  "outcome input_fr (Resolved descriptor_A) (Resolved ()) = Inr descriptor_A \<and>
   truthy (js_get input_fr ''language'') \<and>
   language (state (fst after_fr)) = JStr ''fr_FR'' \<and>
   outcome input_A (Resolved descriptor_A) (Resolved ()) = Inr descriptor_A \<and>
   js_get input_A ''language'' = JUndefined \<and>
   language (state (fst after_A)) = JStr ''en_US'' \<and>
   outcome input_empty (Resolved descriptor_A) (Resolved ()) = Inr descriptor_A \<and>
   \<not> truthy (js_get input_empty ''language'') \<and>
   language (state (fst after_empty)) = JStr ''en_US''"
proof -
  have s1: "outcome input_fr (Resolved descriptor_A) (Resolved ()) = Inr descriptor_A"
    by (simp add: outcome_def acquired_def input_fr_def js_get_def)
  have s2: "outcome input_A (Resolved descriptor_A) (Resolved ()) = Inr descriptor_A"
    by (simp add: outcome_def acquired_def input_A_def js_get_def)
  have s3: "outcome input_empty (Resolved descriptor_A) (Resolved ()) = Inr descriptor_A"
    by (simp add: outcome_def acquired_def input_empty_def js_get_def)
  have l1: "js_get input_fr ''language'' = JStr ''fr_FR''"
    by (simp add: input_fr_def js_get_def)
  have l2: "js_get input_A ''language'' = JUndefined"
    by (simp add: input_A_def js_get_def)
  have l3: "js_get input_empty ''language'' = JStr []"
    by (simp add: input_empty_def js_get_def)
  note i1 = language_of_successful_attempt [OF s1, of example_constants None None
      "fst mounted" "snd mounted", simplified prod.collapse, folded after_fr_def]
  note i2 = language_of_successful_attempt [OF s2, of example_constants "Some returns"
      "Some returns" "fst mounted" "snd mounted", simplified prod.collapse, folded after_A_def]
  note i3 = language_of_successful_attempt [OF s3, of example_constants None None
      "fst mounted" "snd mounted", simplified prod.collapse, folded after_empty_def]
  from i1 i2 i3 s1 s2 s3 l1 l2 l3 show ?thesis by simp
qed

text \<open>
  The claim as written has \<^verbatim>\<open>input.language\<close> whenever the field is present. An input
  whose \<^verbatim>\<open>language\<close> is the empty string has the field, the attempt succeeds, and the
  language of the state is not that of the input.
\<close>

theorem empty_language_counterexample:
  "outcome input_empty (Resolved descriptor_A) (Resolved ()) = Inr descriptor_A \<and>
   map_of input_empty ''language'' = Some (JStr '''') \<and>
   language (state (fst after_empty)) \<noteq> js_get input_empty ''language''"
  by (simp add: outcome_def acquired_def after_empty_def input_empty_def run_defs example_defs
      new_ChatSession_def Let_def)

section \<open>The first step of an attempt\<close>



text \<open>
  C4, as the code has it. When the input has truthy \<^verbatim>\<open>chatSessionParameters\<close>,
  \<^verbatim>\<open>submitChatInitiation\<close> returns suspended at the opening of the session, no call of
  \<^verbatim>\<open>initiateChat\<close> is made during the attempt, however it ends, and the descriptor that
  the one session of the attempt is created with is the object
  \<^verbatim>\<open>{startChatResult: chatSessionParameters}\<close>.
\<close>

theorem prebuilt_parameters_skip_initiateChat:
  fixes k inp succ fail created opened c g
  defines "params \<equiv> js_get inp ''chatSessionParameters''"
      and "g' \<equiv> snd (attempt k inp succ fail created opened (c, g))"
  assumes prebuilt: "truthy params"
  shows "snd (submitChatInitiation inp succ fail (c, g)) =
           Await_openChatSession
             \<lparr>input = inp, success = succ, failure = fail,
              customization = customizationParams_of inp\<rparr>
             [(''startChatResult'', params)]
             (session_opened inp [(''startChatResult'', params)] g) \<and>
         filter is_InitiateChat (calls_since g g') = [] \<and>
         map chatDetails (created_sessions (calls_since g g')) = [[(''startChatResult'', params)]]"
proof -
  have acq: "acquired inp created = Resolved [(''startChatResult'', params)]"
    using prebuilt by (simp add: acquired_def params_def)
  have first: "snd (submitChatInitiation inp succ fail (c, g)) =
           Await_openChatSession
             \<lparr>input = inp, success = succ, failure = fail,
              customization = customizationParams_of inp\<rparr>
             [(''startChatResult'', params)]
             (session_opened inp [(''startChatResult'', params)] g)"
    using prebuilt
    by (simp add: submitChatInitiation_def open_step_def openChatSession_def Let_def
        session_opened_def params_def)
  have rest: "filter is_InitiateChat (calls_since g g') = [] \<and>
      map chatDetails (created_sessions (calls_since g g')) = [[(''startChatResult'', params)]]"
  proof (cases opened)
    case (Rejected e)
    show ?thesis
      using prebuilt unfolding g'_def Rejected attempt_opening_rejected [OF acq]
      by (simp add: params_def session_opened_def new_ChatSession_def split: option.splits)
  next
    case (Resolved u)
    show ?thesis
      using prebuilt unfolding g'_def Resolved attempt_opened [OF acq]
      by (simp add: params_def session_opened_def new_ChatSession_def Let_def
          split: option.splits)
  qed
  from first rest show ?thesis by blast
qed

theorem prebuilt_parameters_witness:
  "truthy (js_get input_B ''chatSessionParameters'') \<and>
   snd (submitChatInitiation input_B (Some returns) None mounted) =
     Await_openChatSession
       \<lparr>input = input_B, success = Some returns, failure = None,
         customization = customizationParams_of input_B\<rparr>
       [(''startChatResult'', params_B)]
       (session_opened input_B [(''startChatResult'', params_B)] (snd mounted)) \<and>
   filter is_InitiateChat (calls_since (snd mounted) (snd after_B)) = [] \<and>
   map chatDetails (created_sessions (calls_since (snd mounted) (snd after_B))) =
     [[(''startChatResult'', params_B)]]"
proof -
  have p: "js_get input_B ''chatSessionParameters'' = params_B"
    by (simp add: input_B_def js_get_def)
  have t: "truthy (js_get input_B ''chatSessionParameters'')"
    by (simp add: p params_B_def)
  note inst = prebuilt_parameters_skip_initiateChat [OF t, of "Some returns" None "fst mounted"
      "snd mounted" example_constants "Rejected (JStr ''unused'')" "Resolved ()",
      simplified prod.collapse, folded after_B_def]
  from inst t show ?thesis by (simp add: p)
qed

text \<open>
  The claim as written takes the descriptor to be the parameters themselves. In scenario
  B the descriptor of the session is not the value of \<^verbatim>\<open>chatSessionParameters\<close>; the
  difference shows: the parameters hold a feature-permission mapping that marks
  attachments, the descriptor has none, and the attachments flag stays undefined.
\<close>

theorem descriptor_is_wrapped_counterexample:
  "truthy (js_get input_B ''chatSessionParameters'') \<and>
   map (JObj \<circ> chatDetails) (created_sessions (calls_since (snd mounted) (snd after_B))) \<noteq>
     [js_get input_B ''chatSessionParameters''] \<and>
   js_index (js_get input_B ''chatSessionParameters'') ''featurePermissions'' =
     JObj [(''attachments'', JBool True)] \<and>
   js_get (composerConfig (state (fst after_B))) ''attachmentsEnabled'' = JUndefined"
  by (simp add: after_B_def run_defs example_defs new_ChatSession_def Let_def calls_since_def)

section \<open>Reset and teardown\<close>

text \<open>
  C8, as the code has it. In every state, \<^verbatim>\<open>resetState\<close> sets the status to
  \<^verbatim>\<open>NotInitiated\<close> and \<^verbatim>\<open>chatSession\<close> to null and leaves \<^verbatim>\<open>composerConfig\<close>,
  \<^verbatim>\<open>language\<close> and the rest of the instance as they were. Outside the instance it changes
  nothing (the registry and the subscriptions stay) and calls nothing, except that it
  writes one line to the log when the instance has a logger.
\<close>

theorem resetState_effect:
  fixes c g
  defines "c' \<equiv> fst (resetState (c, g))" and "g' \<equiv> snd (resetState (c, g))"
  shows "status (state c') = NotInitiated \<and> chatSession (state c') = None \<and>
         composerConfig (state c') = composerConfig (state c) \<and>
         language (state c') = language (state c) \<and>
         c' = c\<lparr>state := (state c)\<lparr>status := NotInitiated, chatSession := None\<rparr>\<rparr> \<and>
         g' = g\<lparr>trace := trace g @
                 (if logger c then [LoggerInfo ''Chat session is reset'' []] else [])\<rparr>"
  unfolding c'_def g'_def by (simp add: resetState_def setState_def logger_info_def)

text \<open>
  The claim as written has no call at all. After scenario A, on a component that was
  mounted with a log manager, the reset makes a call.
\<close>

theorem resetState_logs_counterexample:
  "calls_since (snd after_A) (snd (resetState after_A)) \<noteq> []"
  by (simp add: after_A_eq resetState_def logger_info_def calls_since_def)

text \<open>
  What mounting and unmounting do to the subscriptions, in any surroundings: the
  constructor subscribes the second bound function and stores the first, and
  \<^verbatim>\<open>componentWillUnmount\<close> unsubscribes the stored one.
\<close>

lemma constructor_subscribes:
  "EventBus (snd (constructor g)) = EventBus g @ [(''initChat'', Suc (allocated g))] \<and>
   submitChatInitiationHandler (fst (constructor g)) = allocated g"
  by (simp add: constructor_def bind_this_def EventBus_on_def Let_def)

lemma unmount_keeps_subscription:
  "EventBus (componentWillUnmount (fst (constructor g)) (snd (constructor g))) =
     filter (\<lambda>sub. snd sub \<noteq> allocated g) (EventBus g) @ [(''initChat'', Suc (allocated g))]"
  by (simp add: componentWillUnmount_def EventBus_off_def constructor_subscribes)

text \<open>
  C3. The claim is that unmounting removes the \<^verbatim>\<open>initChat\<close> handler that was subscribed
  at construction. On the code it does not: mounted on an empty bus, the component
  subscribes the function 1 and stores the function 0, and after
  \<^verbatim>\<open>componentWillUnmount\<close> the subscription of 1 is still there.
\<close>

theorem unmount_leaves_initChat_handler:
  "EventBus (snd mounted) = [(''initChat'', 1)] \<and>
   submitChatInitiationHandler (fst mounted) = 0 \<and>
   EventBus (componentWillUnmount (fst mounted) (snd mounted)) = [(''initChat'', 1)]"
  unfolding mounted_def unmount_keeps_subscription
  by (simp add: constructor_subscribes initial_globals_def)

section \<open>The flags of the composer\<close>

text \<open>
  C5, as the code has it. The flag is the value of
  \<^verbatim>\<open>(a && a[ATTACHMENTS]) || (b && b[ATTACHMENTS])\<close> for the two feature-permission
  mappings \<open>a\<close> of the input and \<open>b\<close> of the descriptor, not a boolean made from it. It is
  truthy exactly when one of the mappings marks attachments. For mappings from capability
  names to booleans it is \<^verbatim>\<open>true\<close> exactly when one of them stores \<^verbatim>\<open>true\<close> for
  attachments. When both mappings are absent it is \<^verbatim>\<open>undefined\<close>, which is falsy.
\<close>

theorem attachmentsEnabled_truthiness:
  fixes k inp details
  defines "mine \<equiv> js_get inp ''featurePermissions''"
      and "theirs \<equiv> js_get details ''featurePermissions''"
      and "flag \<equiv> attachmentsEnabled k inp details"
  shows "(truthy flag \<longleftrightarrow> marks k mine \<or> marks k theirs) \<and>
         (boolean_valued k mine \<and> boolean_valued k theirs \<longrightarrow>
            (flag = JBool True \<longleftrightarrow>
               js_index mine (ATTACHMENTS k) = JBool True \<or>
               js_index theirs (ATTACHMENTS k) = JBool True)) \<and>
         (mine = JUndefined \<and> theirs = JUndefined \<longrightarrow> flag = JUndefined)"
proof -
  have a: "truthy flag \<longleftrightarrow> marks k mine \<or> marks k theirs"
    unfolding flag_def mine_def theirs_def
    by (auto simp: attachmentsEnabled_def marks_def js_or_def js_and_def)
  have b: "flag = JBool True \<longleftrightarrow>
      js_index mine (ATTACHMENTS k) = JBool True \<or> js_index theirs (ATTACHMENTS k) = JBool True"
    if "boolean_valued k mine" "boolean_valued k theirs"
    using that unfolding flag_def attachmentsEnabled_def
    unfolding mine_def [symmetric] theirs_def [symmetric]
    by (cases mine; cases theirs) (auto simp: js_or_def js_and_def split: jsval.splits)
  have c: "flag = JUndefined" if "mine = JUndefined" "theirs = JUndefined"
    using that unfolding flag_def attachmentsEnabled_def
    unfolding mine_def [symmetric] theirs_def [symmetric]
    by (simp add: js_or_def js_and_def)
  from a b c show ?thesis by blast
qed

theorem attachmentsEnabled_witness:
  "boolean_valued example_constants (js_get input_A ''featurePermissions'') \<and>
   boolean_valued example_constants
     (js_get [(''featurePermissions'', JObj [(''attachments'', JBool True)])] ''featurePermissions'') \<and>
   attachmentsEnabled example_constants input_A
     [(''featurePermissions'', JObj [(''attachments'', JBool True)])] = JBool True \<and>
   js_get input_A ''featurePermissions'' = JUndefined \<and>
   js_get descriptor_A ''featurePermissions'' = JUndefined \<and>
   attachmentsEnabled example_constants input_A descriptor_A = JUndefined"
proof -
  have u: "js_get input_A ''featurePermissions'' = JUndefined"
    "js_get descriptor_A ''featurePermissions'' = JUndefined"
    by (simp_all add: input_A_def descriptor_A_def js_get_def)
  have v: "js_get [(''featurePermissions'', JObj [(''attachments'', JBool True)])]
      ''featurePermissions'' = JObj [(''attachments'', JBool True)]"
    by (simp add: js_get_def)
  have bv: "boolean_valued example_constants (js_get input_A ''featurePermissions'')"
    "boolean_valued example_constants
     (js_get [(''featurePermissions'', JObj [(''attachments'', JBool True)])] ''featurePermissions'')"
    unfolding u v by (simp_all add: example_constants_def js_get_def)
  have idx: "js_index (JObj [(''attachments'', JBool True)]) (ATTACHMENTS example_constants) =
      JBool True"
    by (simp add: example_constants_def js_get_def)
  from attachmentsEnabled_truthiness [of example_constants input_A
      "[(''featurePermissions'', JObj [(''attachments'', JBool True)])]"] bv idx
  have on: "attachmentsEnabled example_constants input_A
     [(''featurePermissions'', JObj [(''attachments'', JBool True)])] = JBool True"
    unfolding v by blast
  from attachmentsEnabled_truthiness [of example_constants input_A descriptor_A] u
  have off: "attachmentsEnabled example_constants input_A descriptor_A = JUndefined"
    by blast
  from bv on u off show ?thesis by blast
qed

text \<open>
  The claim as written has the flag \<^verbatim>\<open>false\<close> when both mappings are absent. In scenario
  A they are, and the flag is not the boolean \<^verbatim>\<open>false\<close>.
\<close>

theorem attachmentsEnabled_undefined_counterexample:
  "js_get input_A ''featurePermissions'' = JUndefined \<and>
   js_get descriptor_A ''featurePermissions'' = JUndefined \<and>
   attachmentsEnabled example_constants input_A descriptor_A \<noteq> JBool False"
  by (simp add: example_defs)

text \<open>
  \<open>split_comma\<close> computes the entries of a comma-separated list: its result has no
  comma in any piece and joins back to the string, and it is the only such list.
\<close>

lemma split_comma_not_Nil [simp]: "split_comma s \<noteq> []"
  by (induction s) (auto split: list.splits)

lemma split_comma_comma_free: "list_all comma_free (split_comma s)"
  by (induction s) (auto simp: comma_free_def split: list.splits)

lemma join_comma_Cons: "join_comma ((c # w) # ws) = c # join_comma (w # ws)"
  by (cases ws) simp_all

lemma join_split_comma: "join_comma (split_comma s) = s"
proof (induction s)
  case Nil
  then show ?case by simp
next
  case (Cons c cs)
  obtain w ws where split: "split_comma cs = w # ws"
    by (cases "split_comma cs") simp_all
  with Cons show ?case by (simp add: join_comma_Cons)
qed

lemma split_comma_free: "comma_free w \<Longrightarrow> split_comma w = [w]"
  by (induction w) (auto simp: comma_free_def)

lemma split_comma_append:
  "comma_free w \<Longrightarrow> split_comma (w @ CHR '','' # cs) = w # split_comma cs"
  by (induction w) (auto simp: comma_free_def)

lemma split_join_comma:
  "ws \<noteq> [] \<Longrightarrow> list_all comma_free ws \<Longrightarrow> split_comma (join_comma ws) = ws"
  by (induction ws rule: join_comma.induct) (simp_all add: split_comma_free split_comma_append)

lemma entries_of_iff: "entries_of s ws \<longleftrightarrow> ws = split_comma s"
  unfolding entries_of_def
  using split_join_comma [of ws] join_split_comma [of s] split_comma_comma_free [of s]
  by auto

text \<open>
  C6. The flag \<^verbatim>\<open>richMessagingEnabled\<close> is true exactly when
  \<^verbatim>\<open>supportedMessagingContentTypes\<close> is a string and the markdown-text literal is one of
  its comma-separated entries. It is false when the field is absent, when it is not a
  string, and (the literal not being empty) when it is the empty string.
\<close>

theorem richMessagingEnabled_iff_markdown_entry:
  fixes k inp
  defines "types \<equiv> js_get inp ''supportedMessagingContentTypes''"
  shows "(richMessagingEnabled k inp \<longleftrightarrow>
            (\<exists>s ws. types = JStr s \<and> entries_of s ws \<and> TEXT_MARKDOWN k \<in> set ws)) \<and>
         (types = JUndefined \<longrightarrow> \<not> richMessagingEnabled k inp) \<and>
         ((\<forall>s. types \<noteq> JStr s) \<longrightarrow> \<not> richMessagingEnabled k inp) \<and>
         (TEXT_MARKDOWN k \<noteq> [] \<and> types = JStr [] \<longrightarrow> \<not> richMessagingEnabled k inp)"
  unfolding types_def richMessagingEnabled_def
  by (cases "js_get inp ''supportedMessagingContentTypes''") (auto simp: entries_of_iff)

theorem richMessagingEnabled_witness:
  "entries_of ''text/plain,text/markdown'' [''text/plain'', ''text/markdown''] \<and>
   richMessagingEnabled example_constants input_fr \<and>
   js_get input_A ''supportedMessagingContentTypes'' = JUndefined \<and>
   \<not> richMessagingEnabled example_constants input_A \<and>
   \<not> richMessagingEnabled example_constants [(''supportedMessagingContentTypes'', JNum 7)] \<and>
   TEXT_MARKDOWN example_constants \<noteq> [] \<and>
   \<not> richMessagingEnabled example_constants [(''supportedMessagingContentTypes'', JStr [])]"
proof -
  have e: "entries_of ''text/plain,text/markdown'' [''text/plain'', ''text/markdown'']"
    by (simp add: entries_of_def comma_free_def)
  have t: "js_get input_fr ''supportedMessagingContentTypes'' = JStr ''text/plain,text/markdown''"
    by (simp add: input_fr_def js_get_def)
  have m: "TEXT_MARKDOWN example_constants \<in> set [''text/plain'', ''text/markdown'']"
    "TEXT_MARKDOWN example_constants \<noteq> []"
    by (simp_all add: example_constants_def)
  from richMessagingEnabled_iff_markdown_entry [of example_constants input_fr] e t m
  have on: "richMessagingEnabled example_constants input_fr" by blast
  have u: "js_get input_A ''supportedMessagingContentTypes'' = JUndefined"
    by (simp add: input_A_def js_get_def)
  from richMessagingEnabled_iff_markdown_entry [of example_constants input_A] u
  have absent: "\<not> richMessagingEnabled example_constants input_A" by blast
  have n: "\<forall>s. js_get [(''supportedMessagingContentTypes'', JNum 7)]
      ''supportedMessagingContentTypes'' \<noteq> JStr s"
    by (simp add: js_get_def)
  from richMessagingEnabled_iff_markdown_entry [of example_constants
      "[(''supportedMessagingContentTypes'', JNum 7)]"] n
  have number: "\<not> richMessagingEnabled example_constants
      [(''supportedMessagingContentTypes'', JNum 7)]" by blast
  have z: "js_get [(''supportedMessagingContentTypes'', JStr [])]
      ''supportedMessagingContentTypes'' = JStr []"
    by (simp add: js_get_def)
  from richMessagingEnabled_iff_markdown_entry [of example_constants
      "[(''supportedMessagingContentTypes'', JStr [])]"] z m(2)
  have empty: "\<not> richMessagingEnabled example_constants
      [(''supportedMessagingContentTypes'', JStr [])]" by blast
  from e on u absent number m(2) empty show ?thesis by blast
qed

end
